theory Spec2Isabelle
  imports Complex_Main "HOL-Library.AList"
begin

section \<open>Values of the notebook\<close>

text \<open>
  The notebook is Python 2 on numpy, pandas, scipy and astropy. Python floats are
  idealised as \<^typ>\<open>real\<close>; the one place where the float arithmetic leaves the finite
  range by construction (a division by a zero scale) is made explicit below.

  Every exception that the notebook or one of its libraries raises is a value of \<open>error\<close>.
  The notebook defines no error kind of its own.
\<close>

datatype error = SyntaxError | NameError string | KeyError string | ValueError

subsection \<open>Data frames\<close>

text \<open>
  A pandas \<open>DataFrame\<close> with the default row index and float columns: the number of rows and
  the columns in their order. \<open>df[k] = v\<close> replaces the column \<open>k\<close> where it stands, or
  appends it when the frame has no such column, which is what \<open>AList.update\<close> does.
\<close>

record dataframe =
  nrows :: nat
  columns :: "(string \<times> real list) list"

text \<open>\<^verbatim>\<open>pd.DataFrame(np.ones((n, len(labels))), columns=labels)\<close>\<close>

definition DataFrame_ones :: "nat \<Rightarrow> string list \<Rightarrow> dataframe" where
  "DataFrame_ones n labels = \<lparr>nrows = n, columns = map (\<lambda>k. (k, replicate n 1)) labels\<rparr>"

text \<open>\<^verbatim>\<open>df[k] = v\<close> for a scalar \<open>v\<close>: the scalar fills the column.\<close>

definition setitem_scalar :: "dataframe \<Rightarrow> string \<Rightarrow> real \<Rightarrow> dataframe" where
  "setitem_scalar df k v = df\<lparr>columns := AList.update k (replicate (nrows df) v) (columns df)\<rparr>"

text \<open>\<^verbatim>\<open>df[k] = vs\<close> for an array: pandas raises ValueError unless it has one entry per row.\<close>

definition setitem_array :: "dataframe \<Rightarrow> string \<Rightarrow> real list \<Rightarrow> error + dataframe" where
  "setitem_array df k vs =
     (if length vs = nrows df then Inr (df\<lparr>columns := AList.update k vs (columns df)\<rparr>)
      else Inl ValueError)"

text \<open>\<^verbatim>\<open>df[k]\<close>: the column as a Series, KeyError when there is none.\<close>

definition getitem :: "dataframe \<Rightarrow> string \<Rightarrow> error + real list" where
  "getitem df k = (case map_of (columns df) k of None \<Rightarrow> Inl (KeyError k) | Some vs \<Rightarrow> Inr vs)"

text \<open>\<^verbatim>\<open>df[[k1, ..., kn]]\<close>: a new frame of the listed columns, in the listed order.\<close>

fun select_columns :: "(string \<times> real list) list \<Rightarrow> string list \<Rightarrow> error + (string \<times> real list) list" where
  "select_columns cs [] = Inr []"
| "select_columns cs (k # ks) =
     (case map_of cs k of
        None \<Rightarrow> Inl (KeyError k)
      | Some vs \<Rightarrow> (case select_columns cs ks of Inl e \<Rightarrow> Inl e | Inr r \<Rightarrow> Inr ((k, vs) # r)))"

definition getitem_list :: "dataframe \<Rightarrow> string list \<Rightarrow> error + dataframe" where
  "getitem_list df ks =
     (case select_columns (columns df) ks of
        Inl e \<Rightarrow> Inl e
      | Inr cs \<Rightarrow> Inr \<lparr>nrows = nrows df, columns = cs\<rparr>)"

section \<open>The likelihood stub and the weighting function\<close>

text \<open>
  \<^verbatim>\<open>
  def likelihood(parameters):
      L = 1.0 # for now...
      return L
  \<close>
\<close>

definition likelihood :: "'a \<Rightarrow> real" where
  "likelihood parameters = (let L = 1 in L)"

text \<open>
  \<^verbatim>\<open>
  def weight_by_likelihood(parameters):
      #  Set likelihood column of parameters:
      parameters['weight'] = likelihood(parameters)
      return parameters
  \<close>
  The argument is a reference to a mutable frame, so the function is modelled on a heap of
  frames: it takes the reference and the heap, and returns the reference it hands back
  together with the heap after the assignment.
\<close>

type_synonym ref = nat

type_synonym heap = "ref \<Rightarrow> dataframe"

definition weight_by_likelihood :: "ref \<Rightarrow> heap \<Rightarrow> ref \<times> heap" where
  "weight_by_likelihood parameters h =
     (parameters,
      h(parameters := setitem_scalar (h parameters) ''weight'' (likelihood (h parameters))))"

text \<open>The sum of the weights a frame carries (\<^verbatim>\<open>df['weight'].sum()\<close>).\<close>

definition weight_sum :: "dataframe \<Rightarrow> error + real" where
  "weight_sum df = (case getitem df ''weight'' of Inl e \<Rightarrow> Inl e | Inr ws \<Rightarrow> Inr (sum_list ws))"

text \<open>An ensemble of two candidates, used as a concrete input below.\<close>

definition ensemble2 :: dataframe where
  "ensemble2 = \<lparr>nrows = 2, columns = [(''Omega_m'', [3 / 10, 4 / 10]), (''alpha'', [1, 2])]\<rparr>"

section \<open>The libraries the notebook calls\<close>

text \<open>
  numpy's generator, scipy's \<open>norm.rvs\<close> (which draws from the same generator) and astropy's
  cosmology are not part of the notebook, so they are parameters of the model: \<open>'g\<close> is the
  state of numpy's global generator, and each primitive returns one variate together with
  the state that follows. \<open>distmod H0 Om0 z\<close> stands for the value of \<^verbatim>\<open>cosmo.distmod(z).value\<close> at
  one redshift, for the cosmology \<open>cosmo\<close> built from \<open>H0\<close> and \<open>Om0\<close>. The notebook never seeds
  the generator; the state in which a run starts plays the part of the seed.
\<close>

record 'g library =
  standard_normal :: "'g \<Rightarrow> real \<times> 'g"
  standard_exponential :: "'g \<Rightarrow> real \<times> 'g"
  random_sample :: "'g \<Rightarrow> real \<times> 'g"
  distmod :: "real \<Rightarrow> real \<Rightarrow> real \<Rightarrow> real"

text \<open>
  \<^verbatim>\<open>FlatLambdaCDM(H0=H0, Om0=Om0)\<close>: astropy's constructor refuses a negative matter density
  with a ValueError; every other density, above 1 included, gives a cosmology, which the
  model keeps as the pair of its parameters.
\<close>

definition FlatLambdaCDM :: "real \<Rightarrow> real \<Rightarrow> error + real \<times> real" where
  "FlatLambdaCDM H0 Om0 = (if Om0 < 0 then Inl ValueError else Inr (H0, Om0))"

text \<open>An array of \<open>n\<close> variates is filled front to back, one draw per entry.\<close>

fun draws :: "('g \<Rightarrow> real \<times> 'g) \<Rightarrow> nat \<Rightarrow> 'g \<Rightarrow> real list \<times> 'g" where
  "draws f 0 g = ([], g)"
| "draws f (Suc n) g =
     (case f g of (x, g') \<Rightarrow> (case draws f n g' of (xs, g'') \<Rightarrow> (x # xs, g'')))"

text \<open>
  \<^verbatim>\<open>np.random.normal(loc, scale, size)\<close>, \<^verbatim>\<open>np.random.exponential(scale, size)\<close> and
  \<^verbatim>\<open>np.random.uniform(low, high, size)\<close>. The numpy of the notebook's kernel refuses a
  non-positive scale with a ValueError, raised by the sampling call itself.
\<close>

definition np_random_normal ::
  "'g library \<Rightarrow> real \<Rightarrow> real \<Rightarrow> nat \<Rightarrow> 'g \<Rightarrow> error + real list \<times> 'g" where
  "np_random_normal lib loc scale n g =
     (if scale \<le> 0 then Inl ValueError
      else case draws (standard_normal lib) n g of
             (zs, g') \<Rightarrow> Inr (map (\<lambda>v. loc + scale * v) zs, g'))"

definition np_random_exponential ::
  "'g library \<Rightarrow> real \<Rightarrow> nat \<Rightarrow> 'g \<Rightarrow> error + real list \<times> 'g" where
  "np_random_exponential lib scale n g =
     (if scale \<le> 0 then Inl ValueError
      else case draws (standard_exponential lib) n g of
             (es, g') \<Rightarrow> Inr (map (\<lambda>v. scale * v) es, g'))"

definition np_random_uniform ::
  "'g library \<Rightarrow> real \<Rightarrow> real \<Rightarrow> nat \<Rightarrow> 'g \<Rightarrow> real list \<times> 'g" where
  "np_random_uniform lib low high n g =
     (case draws (random_sample lib) n g of
        (us, g') \<Rightarrow> (map (\<lambda>v. low + (high - low) * v) us, g'))"

text \<open>\<^verbatim>\<open>np.ones_like(a)\<close>\<close>

definition np_ones_like :: "real list \<Rightarrow> real list" where
  "np_ones_like a = replicate (length a) 1"

text \<open>
  An elementwise operation on two one-dimensional arrays, with numpy's broadcasting: the
  lengths agree, or one of the arrays has a single entry; otherwise ValueError.
\<close>

definition np_binop :: "(real \<Rightarrow> real \<Rightarrow> real) \<Rightarrow> real list \<Rightarrow> real list \<Rightarrow> error + real list" where
  "np_binop f xs ys =
     (if length xs = length ys then Inr (map2 f xs ys)
      else if length xs = 1 then Inr (map (f (hd xs)) ys)
      else if length ys = 1 then Inr (map (\<lambda>x. f x (hd ys)) xs)
      else Inl ValueError)"

text \<open>
  An array as the operand of an operation with a Series of \<open>n\<close> rows: one entry per row, or
  a single entry that is repeated; otherwise ValueError.
\<close>

definition as_rows :: "nat \<Rightarrow> real list \<Rightarrow> error + real list" where
  "as_rows n a =
     (if length a = n then Inr a
      else if length a = 1 then Inr (replicate n (hd a))
      else Inl ValueError)"

section \<open>The unnormalised Gaussian log term\<close>

text \<open>
  \<^verbatim>\<open>
  def LogGaussian(x,mu,sig):
      return -0.5*(x-mu)**2 /sig**2
  \<close>
  Dividing by a zero \<open>sig**2\<close> does not raise in numpy: the entry becomes \<open>-inf\<close> or \<open>nan\<close>.
  Such a value is \<open>NonFinite\<close>, and a sum with a non-finite entry is non-finite.
\<close>

datatype pyfloat = Finite real | NonFinite

definition LogGaussian :: "real \<Rightarrow> real \<Rightarrow> real \<Rightarrow> pyfloat" where
  "LogGaussian x mu sig =
     (if sig ^ 2 = 0 then NonFinite else Finite (- (1 / 2) * (x - mu) ^ 2 / sig ^ 2))"

text \<open>The function applied to arrays and Series of equal length, entry by entry.\<close>

definition LogGaussian_rows :: "real list \<Rightarrow> real list \<Rightarrow> real list \<Rightarrow> pyfloat list" where
  "LogGaussian_rows xs mus sigs =
     map (\<lambda>(x, mu, sig). LogGaussian x mu sig) (zip xs (zip mus sigs))"

fun add_pyfloat :: "pyfloat \<Rightarrow> pyfloat \<Rightarrow> pyfloat" where
  "add_pyfloat (Finite a) (Finite b) = Finite (a + b)"
| "add_pyfloat _ _ = NonFinite"

text \<open>\<^verbatim>\<open>np.sum\<close> of the entries.\<close>

definition np_sum :: "pyfloat list \<Rightarrow> pyfloat" where
  "np_sum xs = foldr add_pyfloat xs (Finite 0)"

section \<open>The notebook's namespace and its cells\<close>

text \<open>
  The kernel's global namespace: one field per name, \<open>None\<close> while the name is unbound.
  Reading an unbound name raises NameError. The fields are the names that the modelled
  cells assign or read; \<open>likelihood_var\<close> is the variable \<open>likelihood\<close> of the sampling
  loop (the function of the same name is \<open>likelihood\<close> above).

  The names that cell 1 binds (\<open>np\<close>, \<open>FlatLambdaCDM\<close>, ...) are not tracked: every kernel
  considered has run cell 1. The module names \<open>pd\<close> and \<open>scipy\<close> are tracked, because only
  later cells bind them: \<open>import pandas as pd\<close> is in cell 11, and cell 1 imports scipy under
  the name \<open>sp\<close> only, so that \<open>scipy\<close> stays unbound until the \<open>import scipy.stats\<close> of cell 15.
\<close>

record namespace =
  size_we_want :: "nat option"
  x1_true_dist :: "real list option"
  x1_obs_unc :: "real list option"
  x1_obs_dist :: "real list option"
  c_true_norm :: "real list option"
  c_true_exp :: "real list option"
  c_true_dist :: "real list option"
  c_obs_unc :: "real list option"
  c_obs_dist :: "real list option"
  z_dist :: "real list option"
  alpha :: "real option"
  beta :: "real option"
  MB :: "real option"
  Omega_m :: "real option"
  sigma_int :: "real option"
  cosmo :: "(real \<times> real) option"
  mu_dist :: "real list option"
  par_labels :: "string list option"
  datafr :: "dataframe option"
  N :: "nat option"
  nSN :: "nat option"
  mu :: "real list option"
  z :: "real list option"
  mb_obs :: "real list option"
  x1_obs :: "real list option"
  c_obs :: "real list option"
  schain :: "dataframe list option"
  mb_true :: "real list option"
  likelihood_mobs :: "pyfloat list option"
  likelihood_x1 :: "pyfloat list option"
  likelihood_c :: "pyfloat list option"
  likelihood_var :: "pyfloat option"
  pd :: "unit option"
  scipy :: "unit option"

text \<open>A fresh kernel: none of the tracked names is bound.\<close>

definition fresh :: namespace where
  "fresh = \<lparr>size_we_want = None, x1_true_dist = None, x1_obs_unc = None, x1_obs_dist = None,
     c_true_norm = None, c_true_exp = None, c_true_dist = None, c_obs_unc = None,
     c_obs_dist = None, z_dist = None, alpha = None, beta = None, MB = None, Omega_m = None,
     sigma_int = None, cosmo = None, mu_dist = None, par_labels = None, datafr = None,
     N = None, nSN = None, mu = None, z = None, mb_obs = None, x1_obs = None, c_obs = None,
     schain = None, mb_true = None, likelihood_mobs = None, likelihood_x1 = None,
     likelihood_c = None, likelihood_var = None, pd = None, scipy = None\<rparr>"

definition lookup :: "string \<Rightarrow> 'a option \<Rightarrow> error + 'a" where
  "lookup name v = (case v of None \<Rightarrow> Inl (NameError name) | Some x \<Rightarrow> Inr x)"

text \<open>Sequencing: the first error ends the computation.\<close>

definition then_do :: "error + 'a \<Rightarrow> ('a \<Rightarrow> error + 'b) \<Rightarrow> error + 'b" where
  "then_do r k = (case r of Inl e \<Rightarrow> Inl e | Inr x \<Rightarrow> k x)"

type_synonym 'g state = "namespace \<times> 'g"

type_synonym 'g cell = "'g state \<Rightarrow> error + 'g state"

text \<open>
  Cell 1 imports the libraries and selects the plotting backend; the libraries are taken
  as installed, so the cell binds nothing that the model tracks.
\<close>

definition cell_imports :: "'g cell" where
  "cell_imports s = Inr s"

text \<open>Cell 2: \<^verbatim>\<open>size_we_want = 250\<close>\<close>

definition cell_size_we_want :: "'g cell" where
  "cell_size_we_want s = (case s of (ns, g) \<Rightarrow> Inr (ns\<lparr>size_we_want := Some 250\<rparr>, g))"

text \<open>Cell 3: \<^verbatim>\<open>x1_true_dist = np.random.normal(loc=0, scale=1, size=size_we_want)\<close>\<close>

definition cell_x1_true :: "'g library \<Rightarrow> 'g cell" where
  "cell_x1_true lib s = (case s of (ns, g) \<Rightarrow>
     then_do (lookup ''size_we_want'' (size_we_want ns)) (\<lambda>n.
     then_do (np_random_normal lib 0 1 n g) (\<lambda>(xs, g').
     Inr (ns\<lparr>x1_true_dist := Some xs\<rparr>, g'))))"

text \<open>
  Cell 4:
  \<^verbatim>\<open>
  x1_obs_unc = 0.5*np.ones_like(x1_true_dist)
  x1_obs_dist = x1_true_dist + x1_obs_unc*np.random.normal(loc=0, scale=1, size=size_we_want)
  \<close>
\<close>

definition cell_x1_obs :: "'g library \<Rightarrow> 'g cell" where
  "cell_x1_obs lib s = (case s of (ns, g) \<Rightarrow>
     then_do (lookup ''x1_true_dist'' (x1_true_dist ns)) (\<lambda>xt.
     let unc = map (\<lambda>v. (1 / 2) * v) (np_ones_like xt);
         ns1 = ns\<lparr>x1_obs_unc := Some unc\<rparr>
     in
     then_do (lookup ''size_we_want'' (size_we_want ns1)) (\<lambda>n.
     then_do (np_random_normal lib 0 1 n g) (\<lambda>(noise, g').
     then_do (np_binop (*) unc noise) (\<lambda>scaled.
     then_do (np_binop (+) xt scaled) (\<lambda>obs.
     Inr (ns1\<lparr>x1_obs_dist := Some obs\<rparr>, g')))))))"

text \<open>
  Cell 5:
  \<^verbatim>\<open>
  c_true_norm = np.random.normal(loc=0, scale=0.1, size=size_we_want)
  c_true_exp = np.random.exponential(scale=0.1/1, size=size_we_want)
  c_true_dist = np.add(c_true_norm, c_true_exp)
  c_obs_unc = 0.5*np.ones_like(c_true_dist)
  c_obs_dist = c_true_dist + c_obs_unc*np.random.normal(loc=0, scale=1, size=size_we_want)
  \<close>
\<close>

definition cell_c :: "'g library \<Rightarrow> 'g cell" where
  "cell_c lib s = (case s of (ns, g) \<Rightarrow>
     then_do (lookup ''size_we_want'' (size_we_want ns)) (\<lambda>n.
     then_do (np_random_normal lib 0 (1 / 10) n g) (\<lambda>(cn, g1).
     then_do (np_random_exponential lib ((1 / 10) / 1) n g1) (\<lambda>(ce, g2).
     then_do (np_binop (+) cn ce) (\<lambda>ct.
     let unc = map (\<lambda>v. (1 / 2) * v) (np_ones_like ct);
         ns1 = ns\<lparr>c_true_norm := Some cn, c_true_exp := Some ce, c_true_dist := Some ct,
                  c_obs_unc := Some unc\<rparr>
     in
     then_do (np_random_normal lib 0 1 n g2) (\<lambda>(noise, g3).
     then_do (np_binop (*) unc noise) (\<lambda>scaled.
     then_do (np_binop (+) ct scaled) (\<lambda>obs.
     Inr (ns1\<lparr>c_obs_dist := Some obs\<rparr>, g3)))))))))"

text \<open>Cell 6: \<^verbatim>\<open>z_dist = np.random.uniform(0.2, 1.0, size=size_we_want)\<close>\<close>

definition cell_z :: "'g library \<Rightarrow> 'g cell" where
  "cell_z lib s = (case s of (ns, g) \<Rightarrow>
     then_do (lookup ''size_we_want'' (size_we_want ns)) (\<lambda>n.
     case np_random_uniform lib (2 / 10) 1 n g of
       (zs, g') \<Rightarrow> Inr (ns\<lparr>z_dist := Some zs\<rparr>, g')))"

text \<open>
  Cell 7:
  \<^verbatim>\<open>
  alpha = 0.13
  beta = 3.0
  MB = -19.1
  Omega_m = 0.3
  sigma_int = 0.15
  \<close>
\<close>

definition cell_constants :: "'g cell" where
  "cell_constants s = (case s of (ns, g) \<Rightarrow>
     Inr (ns\<lparr>alpha := Some (13 / 100), beta := Some 3, MB := Some (- 191 / 10),
              Omega_m := Some (3 / 10), sigma_int := Some (15 / 100)\<rparr>, g))"

text \<open>
  Cell 8:
  \<^verbatim>\<open>
  cosmo = FlatLambdaCDM(H0=70, Om0=Omega_m)
  mu_dist = cosmo.distmod(z_dist).value
  \<close>
\<close>

definition cell_cosmo :: "'g library \<Rightarrow> 'g cell" where
  "cell_cosmo lib s = (case s of (ns, g) \<Rightarrow>
     then_do (lookup ''Omega_m'' (Omega_m ns)) (\<lambda>om.
     then_do (FlatLambdaCDM 70 om) (\<lambda>cm.
     let ns1 = ns\<lparr>cosmo := Some cm\<rparr> in
     then_do (lookup ''z_dist'' (z_dist ns1)) (\<lambda>zs.
     Inr (ns1\<lparr>mu_dist := Some (map (distmod lib (fst cm) (snd cm)) zs)\<rparr>, g)))))"

text \<open>
  Cell 9:
  \<^verbatim>\<open>
  mb_true_mean = MB - alpha*x1_true_dist + beta*c_true_dist + mu_dist
  mb_true_var = sigma_int**2

  mb_true =
  \<close>
  The last statement has no right-hand side, so the cell is not a Python program: the
  kernel rejects it with a SyntaxError when it compiles the cell (the notebook records
  that output), and none of its statements is executed.
\<close>

definition cell_mb_true :: "'g cell" where
  "cell_mb_true s = Inl SyntaxError"

text \<open>The cells that generate the population, in the notebook's order.\<close>

definition generator_cells :: "'g library \<Rightarrow> 'g cell list" where
  "generator_cells lib =
     [cell_imports, cell_size_we_want, cell_x1_true lib, cell_x1_obs lib, cell_c lib,
      cell_z lib, cell_constants, cell_cosmo lib]"

text \<open>
  Running cells in order: the run stops at the first cell that raises, and the cells after
  it are not executed. \<open>run_cells k cs s\<close> runs the cells \<open>cs\<close>, the first of which is the
  notebook's \<open>k\<close>-th code cell. A halted run reports the cell, the error and the state in
  which the failing cell was started.
\<close>

datatype 'g outcome = Completed "'g state" | Halted nat error "'g state"

fun run_cells :: "nat \<Rightarrow> 'g cell list \<Rightarrow> 'g state \<Rightarrow> 'g outcome" where
  "run_cells k [] s = Completed s"
| "run_cells k (c # cs) s =
     (case c s of Inl e \<Rightarrow> Halted k e s | Inr s' \<Rightarrow> run_cells (Suc k) cs s')"

text \<open>
  Cell 11 (cell 10 only plots):
  \<^verbatim>\<open>
  import pandas as pd
  par_labels = ['x1_true', 'c_true', 'mb_true', 'alpha', 'beta', 'MB', 'Omega_m', 'sigma_int']
  datafr = pd.DataFrame(np.ones((10,len(par_labels))),columns=par_labels)
  \<close>
\<close>

definition cell_datafr :: "'g cell" where
  "cell_datafr s = (case s of (ns, g) \<Rightarrow>
     let labels = [''x1_true'', ''c_true'', ''mb_true'', ''alpha'', ''beta'', ''MB'',
                   ''Omega_m'', ''sigma_int''];
         ns1 = ns\<lparr>pd := Some (), par_labels := Some labels\<rparr>
     in Inr (ns1\<lparr>datafr := Some (DataFrame_ones 10 labels)\<rparr>, g))"

text \<open>
  The body of the sampling loop of cell 12, one iteration per candidate parameter set:
  \<^verbatim>\<open>
  datafr = pd.DataFrame(np.ones((nSN,len(par_labels))),columns=par_labels)
  datafr['alpha'] = scipy.stats.norm.rvs()
  datafr['beta'] = scipy.stats.norm.rvs()
  datafr['MB'] = scipy.stats.norm.rvs()
  datafr['sigma_int'] = scipy.stats.norm.rvs()
  datafr['Omega_m'] = scipy.stats.norm.rvs()
  datafr['x1_true'] = scipy.stats.norm.rvs(size=nSN)
  datafr['c_true'] = scipy.stats.norm.rvs(size=nSN)

  mb_true = datafr['MB'] - datafr['alpha']*datafr['x1_true'] + datafr['beta']*datafr['c_true'] + mu
  likelihood_mobs = LogGaussian(mb_obs, mb_true, datafr['sigma_int']**2)

  likelihood_x1 = LogGaussian(x1_obs, datafr['x1_true'], 0.5**2)

  likelihood_c = LogGaussian(c_obs, datafr['c_true'], 0.5**2)

  likelihood = np.sum([likelihood_mobs, likelihood_x1, likelihood_c])

  schain.append(datafr[['mb_true', 'alpha', 'beta', 'MB', 'Omega_m', 'sigma_int']])
  \<close>
  The names \<open>mu\<close>, \<open>mb_obs\<close>, \<open>x1_obs\<close> and \<open>c_obs\<close> are read from the namespace; the last three
  are assigned by no cell of the notebook. The loop index is not used by the body. The
  module names \<open>pd\<close> and \<open>scipy\<close> are read where the body first uses them; no statement of the
  body rebinds them.

  The frames of the model have distinct column labels. pandas also builds a frame from
  labels with repetitions, but then \<open>datafr[k]\<close> for a repeated label is a frame and not a
  Series, and the arithmetic of the loop on it raises ValueError; so, for labels with a
  repetition, the iteration ends in that ValueError, at the first statement that
  computes with the columns.
\<close>

definition sampling_body :: "'g library \<Rightarrow> 'g cell" where
  "sampling_body lib s = (case s of (ns, g) \<Rightarrow>
     then_do (lookup ''pd'' (pd ns)) (\<lambda>_.
     then_do (lookup ''nSN'' (nSN ns)) (\<lambda>n.
     then_do (lookup ''par_labels'' (par_labels ns)) (\<lambda>labels.
     let df0 = DataFrame_ones n labels in
     then_do (lookup ''scipy'' (scipy ns)) (\<lambda>_.
     case standard_normal lib g of (v1, g1) \<Rightarrow>
     let df1 = setitem_scalar df0 ''alpha'' v1 in
     case standard_normal lib g1 of (v2, g2) \<Rightarrow>
     let df2 = setitem_scalar df1 ''beta'' v2 in
     case standard_normal lib g2 of (v3, g3) \<Rightarrow>
     let df3 = setitem_scalar df2 ''MB'' v3 in
     case standard_normal lib g3 of (v4, g4) \<Rightarrow>
     let df4 = setitem_scalar df3 ''sigma_int'' v4 in
     case standard_normal lib g4 of (v5, g5) \<Rightarrow>
     let df5 = setitem_scalar df4 ''Omega_m'' v5 in
     case draws (standard_normal lib) n g5 of (x1s, g6) \<Rightarrow>
     then_do (setitem_array df5 ''x1_true'' x1s) (\<lambda>df6.
     case draws (standard_normal lib) n g6 of (cs, g7) \<Rightarrow>
     then_do (setitem_array df6 ''c_true'' cs) (\<lambda>df7.
     then_do (if distinct labels then Inr () else Inl ValueError) (\<lambda>_.
     then_do (getitem df7 ''MB'') (\<lambda>col_MB.
     then_do (getitem df7 ''alpha'') (\<lambda>col_alpha.
     then_do (getitem df7 ''x1_true'') (\<lambda>col_x1.
     then_do (getitem df7 ''beta'') (\<lambda>col_beta.
     then_do (getitem df7 ''c_true'') (\<lambda>col_c.
     then_do (lookup ''mu'' (mu ns)) (\<lambda>mu_arr.
     then_do (as_rows n mu_arr) (\<lambda>mu_rows.
     let mbt = map2 (+) (map2 (+) (map2 (-) col_MB (map2 (*) col_alpha col_x1))
                                  (map2 (*) col_beta col_c)) mu_rows
     in
     then_do (lookup ''mb_obs'' (mb_obs ns)) (\<lambda>mbo.
     then_do (getitem df7 ''sigma_int'') (\<lambda>col_sigma.
     then_do (as_rows n mbo) (\<lambda>mbo_rows.
     let l_mobs = LogGaussian_rows mbo_rows mbt (map (\<lambda>v. v ^ 2) col_sigma) in
     then_do (lookup ''x1_obs'' (x1_obs ns)) (\<lambda>x1o.
     then_do (as_rows n x1o) (\<lambda>x1o_rows.
     let l_x1 = LogGaussian_rows x1o_rows col_x1 (replicate n ((1 / 2) ^ 2)) in
     then_do (lookup ''c_obs'' (c_obs ns)) (\<lambda>co.
     then_do (as_rows n co) (\<lambda>co_rows.
     let l_c = LogGaussian_rows co_rows col_c (replicate n ((1 / 2) ^ 2));
         l = np_sum (l_mobs @ l_x1 @ l_c)
     in
     then_do (lookup ''schain'' (schain ns)) (\<lambda>sc.
     then_do (getitem_list df7 [''mb_true'', ''alpha'', ''beta'', ''MB'', ''Omega_m'',
                                ''sigma_int'']) (\<lambda>sel.
     Inr (ns\<lparr>datafr := Some df7, mb_true := Some mbt, likelihood_mobs := Some l_mobs,
              likelihood_x1 := Some l_x1, likelihood_c := Some l_c,
              likelihood_var := Some l, schain := Some (sc @ [sel])\<rparr>,
          g7)))))))))))))))))))))))))"

text \<open>\<^verbatim>\<open>for i in range(k): body\<close>\<close>

fun for_range :: "nat \<Rightarrow> 'g cell \<Rightarrow> 'g cell" where
  "for_range 0 body s = Inr s"
| "for_range (Suc k) body s = then_do (body s) (for_range k body)"

text \<open>
  Cell 12:
  \<^verbatim>\<open>
  N = 2
  nSN = 10
  cosmo = FlatLambdaCDM(H0=70, Om0=Omega_m)
  mu = cosmo.distmod(z).value
  def LogGaussian(x,mu,sig): ...
  schain = []
  for i in range(N): ...
  \<close>
  The name \<open>z\<close> is read from the namespace; no cell of the notebook assigns it.
\<close>

definition cell_sampling :: "'g library \<Rightarrow> 'g cell" where
  "cell_sampling lib s = (case s of (ns, g) \<Rightarrow>
     let ns1 = ns\<lparr>N := Some 2, nSN := Some 10\<rparr> in
     then_do (lookup ''Omega_m'' (Omega_m ns1)) (\<lambda>om.
     then_do (FlatLambdaCDM 70 om) (\<lambda>cm.
     let ns2 = ns1\<lparr>cosmo := Some cm\<rparr> in
     then_do (lookup ''z'' (z ns2)) (\<lambda>zs.
     let ns3 = ns2\<lparr>mu := Some (map (distmod lib (fst cm) (snd cm)) zs),
                   schain := Some []\<rparr> in
     then_do (lookup ''N'' (N ns3)) (\<lambda>iters.
     for_range iters (sampling_body lib) (ns3, g))))))"

section \<open>The draws of a run, in the order the cells make them\<close>

text \<open>
  The six arrays that the generator cells draw from numpy's generator started in state
  \<open>g\<close>, each from the state its predecessor left, and the state after the last.
\<close>

record 'g generator_draws =
  x1_true_draw :: "real list"
  x1_noise_draw :: "real list"
  c_norm_draw :: "real list"
  c_exp_draw :: "real list"
  c_noise_draw :: "real list"
  z_draw :: "real list"
  rng_after :: 'g

definition generator_draws :: "'g library \<Rightarrow> 'g \<Rightarrow> 'g generator_draws" where
  "generator_draws lib g =
     (case draws (standard_normal lib) 250 g of (a, g1) \<Rightarrow>
      case draws (standard_normal lib) 250 g1 of (b, g2) \<Rightarrow>
      case draws (standard_normal lib) 250 g2 of (c, g3) \<Rightarrow>
      case draws (standard_exponential lib) 250 g3 of (d, g4) \<Rightarrow>
      case draws (standard_normal lib) 250 g4 of (e, g5) \<Rightarrow>
      case draws (random_sample lib) 250 g5 of (f, g6) \<Rightarrow>
        \<lparr>x1_true_draw = a, x1_noise_draw = b, c_norm_draw = c, c_exp_draw = d,
         c_noise_draw = e, z_draw = f, rng_after = g6\<rparr>)"

text \<open>The namespace that the generator cells leave, in closed form.\<close>

definition generated :: "'g library \<Rightarrow> 'g \<Rightarrow> namespace \<Rightarrow> namespace" where
  "generated lib g ns =
     (let d = generator_draws lib g;
          ct = map2 (+) (map (\<lambda>v. 1 / 10 * v) (c_norm_draw d))
                        (map (\<lambda>v. 1 / 10 * v) (c_exp_draw d));
          zs = map (\<lambda>v. 2 / 10 + (1 - 2 / 10) * v) (z_draw d)
      in ns\<lparr>size_we_want := Some 250,
            x1_true_dist := Some (x1_true_draw d),
            x1_obs_unc := Some (replicate 250 (1 / 2)),
            x1_obs_dist := Some (map2 (\<lambda>t e. t + 1 / 2 * e) (x1_true_draw d) (x1_noise_draw d)),
            c_true_norm := Some (map (\<lambda>v. 1 / 10 * v) (c_norm_draw d)),
            c_true_exp := Some (map (\<lambda>v. 1 / 10 * v) (c_exp_draw d)),
            c_true_dist := Some ct,
            c_obs_unc := Some (replicate 250 (1 / 2)),
            c_obs_dist := Some (map2 (\<lambda>t e. t + 1 / 2 * e) ct (c_noise_draw d)),
            z_dist := Some zs,
            alpha := Some (13 / 100), beta := Some 3, MB := Some (- 191 / 10),
            Omega_m := Some (3 / 10), sigma_int := Some (15 / 100),
            cosmo := Some (70, 3 / 10),
            mu_dist := Some (map (distmod lib 70 (3 / 10)) zs)\<rparr>)"

text \<open>What a run of the generator hands on: the population it bound and the generator state.\<close>

definition population_of :: "namespace \<Rightarrow>
    real list option \<times> real list option \<times> real list option \<times> real list option \<times>
    real list option \<times> real list option" where
  "population_of ns =
     (x1_true_dist ns, x1_obs_dist ns, c_true_dist ns, c_obs_dist ns, z_dist ns, mu_dist ns)"

definition generated_output :: "'g outcome \<Rightarrow>
    ((real list option \<times> real list option \<times> real list option \<times> real list option \<times>
      real list option \<times> real list option) \<times> 'g) option" where
  "generated_output r =
     (case r of Completed (ns, g) \<Rightarrow> Some (population_of ns, g) | Halted k e s \<Rightarrow> None)"

text \<open>
  The candidate that one iteration of the sampling loop draws for \<open>n\<close> objects, in the
  order of the loop's calls of \<open>norm.rvs\<close>.
\<close>

record candidate =
  cand_alpha :: real
  cand_beta :: real
  cand_MB :: real
  cand_sigma_int :: real
  cand_Omega_m :: real
  cand_x1_true :: "real list"
  cand_c_true :: "real list"

definition draw_candidate :: "'g library \<Rightarrow> nat \<Rightarrow> 'g \<Rightarrow> candidate \<times> 'g" where
  "draw_candidate lib n g =
     (case standard_normal lib g of (v1, g1) \<Rightarrow>
      case standard_normal lib g1 of (v2, g2) \<Rightarrow>
      case standard_normal lib g2 of (v3, g3) \<Rightarrow>
      case standard_normal lib g3 of (v4, g4) \<Rightarrow>
      case standard_normal lib g4 of (v5, g5) \<Rightarrow>
      case draws (standard_normal lib) n g5 of (x1s, g6) \<Rightarrow>
      case draws (standard_normal lib) n g6 of (cs, g7) \<Rightarrow>
        (\<lparr>cand_alpha = v1, cand_beta = v2, cand_MB = v3, cand_sigma_int = v4,
          cand_Omega_m = v5, cand_x1_true = x1s, cand_c_true = cs\<rparr>, g7))"

text \<open>
  The frame that an iteration builds for the candidate \<open>c\<close>, the value it computes for
  \<open>mb_true\<close>, the frame it appends to \<open>schain\<close> and the value it leaves in \<open>likelihood\<close>, in
  closed form; \<open>sampling_body_run\<close> below shows that this is what the body computes.
\<close>

definition candidate_frame :: "nat \<Rightarrow> string list \<Rightarrow> candidate \<Rightarrow> dataframe" where
  "candidate_frame n labels c =
     \<lparr>nrows = n,
      columns =
        AList.update ''c_true'' (cand_c_true c)
       (AList.update ''x1_true'' (cand_x1_true c)
       (AList.update ''Omega_m'' (replicate n (cand_Omega_m c))
       (AList.update ''sigma_int'' (replicate n (cand_sigma_int c))
       (AList.update ''MB'' (replicate n (cand_MB c))
       (AList.update ''beta'' (replicate n (cand_beta c))
       (AList.update ''alpha'' (replicate n (cand_alpha c))
          (map (\<lambda>k. (k, replicate n 1)) labels)))))))\<rparr>"

definition candidate_mb_true :: "nat \<Rightarrow> candidate \<Rightarrow> real list \<Rightarrow> real list" where
  "candidate_mb_true n c mus =
     map2 (+) (map2 (+) (map2 (-) (replicate n (cand_MB c))
                                  (map2 (*) (replicate n (cand_alpha c)) (cand_x1_true c)))
                        (map2 (*) (replicate n (cand_beta c)) (cand_c_true c))) mus"

definition stored_frame :: "nat \<Rightarrow> candidate \<Rightarrow> dataframe" where
  "stored_frame n c =
     \<lparr>nrows = n,
      columns = [(''mb_true'', replicate n 1), (''alpha'', replicate n (cand_alpha c)),
                 (''beta'', replicate n (cand_beta c)), (''MB'', replicate n (cand_MB c)),
                 (''Omega_m'', replicate n (cand_Omega_m c)),
                 (''sigma_int'', replicate n (cand_sigma_int c))]\<rparr>"

definition candidate_likelihood ::
  "nat \<Rightarrow> candidate \<Rightarrow> real list \<Rightarrow> real list \<Rightarrow> real list \<Rightarrow> real list \<Rightarrow> pyfloat" where
  "candidate_likelihood n c mus mbo x1o co =
     np_sum (LogGaussian_rows mbo (candidate_mb_true n c mus)
               (map (\<lambda>v. v ^ 2) (replicate n (cand_sigma_int c)))
             @ LogGaussian_rows x1o (cand_x1_true c) (replicate n ((1 / 2) ^ 2))
             @ LogGaussian_rows co (cand_c_true c) (replicate n ((1 / 2) ^ 2)))"

text \<open>The candidates of \<open>k\<close> successive iterations, and the generator state after them.\<close>

fun draw_candidates :: "'g library \<Rightarrow> nat \<Rightarrow> nat \<Rightarrow> 'g \<Rightarrow> candidate list \<times> 'g" where
  "draw_candidates lib n 0 g = ([], g)"
| "draw_candidates lib n (Suc k) g =
     (case draw_candidate lib n g of (c, g') \<Rightarrow>
      case draw_candidates lib n k g' of (cs, g'') \<Rightarrow> (c # cs, g''))"

text \<open>
  The namespace after the loop has run over the candidates \<open>cs\<close>: every iteration rebinds
  the same names, so only the last candidate's values remain, while \<open>schain\<close> has grown by
  one frame per candidate.
\<close>

definition after_candidates ::
  "nat \<Rightarrow> string list \<Rightarrow> real list \<Rightarrow> real list \<Rightarrow> real list \<Rightarrow> real list \<Rightarrow>
   dataframe list \<Rightarrow> candidate list \<Rightarrow> namespace \<Rightarrow> namespace" where
  "after_candidates n labels mus mbo x1o co sc cs ns =
     (case rev cs of
        [] \<Rightarrow> ns
      | c # _ \<Rightarrow>
          ns\<lparr>datafr := Some (candidate_frame n labels c),
             mb_true := Some (candidate_mb_true n c mus),
             likelihood_mobs := Some (LogGaussian_rows mbo (candidate_mb_true n c mus)
                                        (map (\<lambda>v. v ^ 2) (replicate n (cand_sigma_int c)))),
             likelihood_x1 := Some (LogGaussian_rows x1o (cand_x1_true c)
                                      (replicate n ((1 / 2) ^ 2))),
             likelihood_c := Some (LogGaussian_rows co (cand_c_true c)
                                     (replicate n ((1 / 2) ^ 2))),
             likelihood_var := Some (candidate_likelihood n c mus mbo x1o co),
             schain := Some (sc @ map (stored_frame n) cs)\<rparr>)"

text \<open>The value that one iteration leaves in the variable \<open>likelihood\<close>.\<close>

definition body_likelihood :: "'g library \<Rightarrow> 'g state \<Rightarrow> error + pyfloat option" where
  "body_likelihood lib s =
     (case sampling_body lib s of Inl e \<Rightarrow> Inl e | Inr (ns, g) \<Rightarrow> Inr (likelihood_var ns))"

section \<open>The likelihood of the specification\<close>

text \<open>
  Following the specification's words, for comparison with the code: \<open>log N(x | m, sd)\<close> is
  the logarithm of the Gaussian density with mean \<open>m\<close> and standard deviation \<open>sd\<close>, and the
  measurement part of the log-likelihood is the sum over all objects of the three
  log-densities, with the per-field uncertainties 0.05 for \<open>mb\<close> and 0.5 for \<open>x1\<close> and \<open>c\<close>.
  The specification adds to it the log-prior density of the latents, which depends on the
  candidate only and not on the observations.
\<close>

definition spec_log_normal :: "real \<Rightarrow> real \<Rightarrow> real \<Rightarrow> real" where
  "spec_log_normal x m sd = - ln (sd * sqrt (2 * pi)) - (x - m) ^ 2 / (2 * sd ^ 2)"

definition spec_measurement_loglik ::
  "nat \<Rightarrow> candidate \<Rightarrow> real list \<Rightarrow> real list \<Rightarrow> real list \<Rightarrow> real list \<Rightarrow> real" where
  "spec_measurement_loglik n c mus mbo x1o co =
     (\<Sum>j<n. spec_log_normal (mbo ! j)
                (cand_MB c - cand_alpha c * cand_x1_true c ! j + cand_beta c * cand_c_true c ! j
                 + mus ! j) (5 / 100)
            + spec_log_normal (x1o ! j) (cand_x1_true c ! j) (1 / 2)
            + spec_log_normal (co ! j) (cand_c_true c ! j) (1 / 2))"

section \<open>Concrete libraries and inputs\<close>

text \<open>
  A scripted generator, whose state counts the draws made: the first 25 standard-normal
  draws (the first candidate of the sampling loop) are 1, the later ones are 2.
\<close>

definition lib0 :: "int library" where
  "lib0 = \<lparr>standard_normal = (\<lambda>g. (if g < 25 then 1 else 2, g + 1)),
           standard_exponential = (\<lambda>g. (1, g + 1)),
           random_sample = (\<lambda>g. (1 / 2, g + 1)),
           distmod = (\<lambda>H0 Om0 v. 0)\<rparr>"

text \<open>A generator all of whose standard-normal draws are \<open>-1\<close>.\<close>

definition lib_neg :: "int library" where
  "lib_neg = \<lparr>standard_normal = (\<lambda>g. (- 1, g + 1)),
              standard_exponential = (\<lambda>g. (1, g + 1)),
              random_sample = (\<lambda>g. (1 / 2, g + 1)),
              distmod = (\<lambda>H0 Om0 v. 0)\<rparr>"

definition ones :: "candidate" where
  "ones = \<lparr>cand_alpha = 1, cand_beta = 1, cand_MB = 1, cand_sigma_int = 1, cand_Omega_m = 1,
           cand_x1_true = replicate 10 1, cand_c_true = replicate 10 1\<rparr>"

definition twos :: "candidate" where
  "twos = \<lparr>cand_alpha = 2, cand_beta = 2, cand_MB = 2, cand_sigma_int = 2, cand_Omega_m = 2,
           cand_x1_true = replicate 10 2, cand_c_true = replicate 10 2\<rparr>"

definition minus_ones :: "candidate" where
  "minus_ones = \<lparr>cand_alpha = - 1, cand_beta = - 1, cand_MB = - 1, cand_sigma_int = - 1,
           cand_Omega_m = - 1, cand_x1_true = replicate 10 (- 1),
           cand_c_true = replicate 10 (- 1)\<rparr>"

definition labels8 :: "string list" where
  "labels8 = [''x1_true'', ''c_true'', ''mb_true'', ''alpha'', ''beta'', ''MB'', ''Omega_m'',
              ''sigma_int'']"

text \<open>
  A kernel in which cells 7 and 11 and \<open>import scipy.stats\<close> have run and the names that
  cell 12 reads without any cell assigning them are bound: ten redshifts and ten
  observations of each kind.
\<close>

definition observed :: namespace where
  "observed = fresh\<lparr>pd := Some (), scipy := Some (), Omega_m := Some (3 / 10),
     par_labels := Some labels8,
     z := Some (replicate 10 (1 / 2)), mb_obs := Some (replicate 10 0),
     x1_obs := Some (replicate 10 0), c_obs := Some (replicate 10 0)\<rparr>"

text \<open>
  The namespace in which cell 12 starts its first iteration when the library's distance
  modulus is 0, for given observations of ten objects.
\<close>

definition in_loop :: "real list \<Rightarrow> real list \<Rightarrow> real list \<Rightarrow> namespace" where
  "in_loop mbo x1o co = observed\<lparr>N := Some 2, nSN := Some 10, cosmo := Some (70, 3 / 10),
     mu := Some (replicate 10 0), mb_obs := Some mbo, x1_obs := Some x1o, c_obs := Some co,
     schain := Some []\<rparr>"


section \<open>Properties of the data frame operations\<close>

lemma map_of_update_same: "map_of (AList.update k v cs) k = Some v"
  by (simp add: update_conv')

lemma map_of_update_other: "k' \<noteq> k \<Longrightarrow> map_of (AList.update k v cs) k' = map_of cs k'"
  by (simp add: update_conv')

lemma filter_update_other:
  "filter (\<lambda>c. fst c \<noteq> k) (AList.update k v cs) = filter (\<lambda>c. fst c \<noteq> k) cs"
  by (induction cs) auto

lemma getitem_setitem_scalar_same:
  "getitem (setitem_scalar df k v) k = Inr (replicate (nrows df) v)"
  by (simp add: getitem_def setitem_scalar_def map_of_update_same)

lemma getitem_setitem_scalar_other:
  "k' \<noteq> k \<Longrightarrow> getitem (setitem_scalar df k v) k' = getitem df k'"
  by (simp add: getitem_def setitem_scalar_def map_of_update_other)

lemma nrows_setitem_scalar: "nrows (setitem_scalar df k v) = nrows df"
  by (simp add: setitem_scalar_def)

section \<open>The claims about the likelihood stub and the weights\<close>

text \<open>
  C1. For every input \<open>parameters\<close>, \<open>likelihood(parameters)\<close> returns the constant 1.0 and
  ignores its argument: any two inputs, of whatever types, yield the same result.
\<close>

theorem likelihood_constant:
  "likelihood (p :: 'a) = 1 \<and> likelihood p = likelihood (q :: 'b)"
  by (simp add: likelihood_def)

text \<open>
  C4, as stated: the weights of a nonempty ensemble sum to exactly 1. On the ensemble of
  two candidates \<open>weight_by_likelihood\<close> leaves the weights 1.0 and 1.0, whose sum is 2.
\<close>

theorem weights_sum_counterexample:
  "weight_sum (snd (weight_by_likelihood 0 (\<lambda>_. ensemble2)) 0) = Inr 2
   \<and> weight_sum (snd (weight_by_likelihood 0 (\<lambda>_. ensemble2)) 0) \<noteq> Inr 1"
  by (simp add: weight_sum_def weight_by_likelihood_def getitem_setitem_scalar_same
      likelihood_def ensemble2_def sum_list_replicate)

text \<open>
  C4, amended: \<open>weight_by_likelihood\<close> gives every row the weight 1.0 and normalises
  nothing, so the weights of an ensemble of \<open>n\<close> rows sum to \<open>n\<close>.
\<close>

theorem weights_sum_is_row_count:
  "getitem (snd (weight_by_likelihood r h) r) ''weight'' = Inr (replicate (nrows (h r)) 1)
   \<and> weight_sum (snd (weight_by_likelihood r h) r) = Inr (real (nrows (h r)))"
  by (simp add: weight_sum_def weight_by_likelihood_def getitem_setitem_scalar_same
      likelihood_def sum_list_replicate)

text \<open>
  C10. \<open>weight_by_likelihood(parameters)\<close> mutates its argument in place: the object it
  returns is the argument itself, that object's \<open>weight\<close> column is set, its rows and all
  its other columns (their order and their contents) are as before, and no other object
  of the heap changes.
\<close>

theorem weight_by_likelihood_frame:
  "fst (weight_by_likelihood r h) = r
   \<and> getitem (snd (weight_by_likelihood r h) r) ''weight'' = Inr (replicate (nrows (h r)) 1)
   \<and> nrows (snd (weight_by_likelihood r h) r) = nrows (h r)
   \<and> filter (\<lambda>c. fst c \<noteq> ''weight'') (columns (snd (weight_by_likelihood r h) r))
       = filter (\<lambda>c. fst c \<noteq> ''weight'') (columns (h r))
   \<and> (\<forall>k. k \<noteq> ''weight'' \<longrightarrow> getitem (snd (weight_by_likelihood r h) r) k = getitem (h r) k)
   \<and> (\<forall>r'. r' \<noteq> r \<longrightarrow> snd (weight_by_likelihood r h) r' = h r')"
  by (simp add: weight_by_likelihood_def getitem_setitem_scalar_same
      getitem_setitem_scalar_other nrows_setitem_scalar likelihood_def)
    (simp add: setitem_scalar_def filter_update_other)

theorem weight_by_likelihood_frame_witness:
  "fst (weight_by_likelihood 0 ((\<lambda>_. ensemble2)(1 := DataFrame_ones 3 [''MB'']))) = 0
   \<and> getitem (snd (weight_by_likelihood 0 ((\<lambda>_. ensemble2)(1 := DataFrame_ones 3 [''MB'']))) 0)
        ''weight'' = Inr [1, 1]
   \<and> getitem (snd (weight_by_likelihood 0 ((\<lambda>_. ensemble2)(1 := DataFrame_ones 3 [''MB'']))) 0)
        ''alpha'' = Inr [1, 2]
   \<and> snd (weight_by_likelihood 0 ((\<lambda>_. ensemble2)(1 := DataFrame_ones 3 [''MB'']))) 1
        = DataFrame_ones 3 [''MB'']"
proof -
  let ?h = "(\<lambda>_. ensemble2)(1 := DataFrame_ones 3 [''MB''])"
  note frame = weight_by_likelihood_frame [of 0 ?h]
  note a = frame [THEN conjunct1]
  note b0 = frame [THEN conjunct2, THEN conjunct1]
  note c0 = frame [THEN conjunct2, THEN conjunct2, THEN conjunct2, THEN conjunct2,
      THEN conjunct1, THEN spec, of "''alpha''"]
  note d0 = frame [THEN conjunct2, THEN conjunct2, THEN conjunct2, THEN conjunct2,
      THEN conjunct2, THEN spec, of 1]
  have b: "getitem (snd (weight_by_likelihood 0 ?h) 0) ''weight'' = Inr [1, 1]"
    using b0 by (simp add: ensemble2_def numeral_2_eq_2)
  have c: "getitem (snd (weight_by_likelihood 0 ?h) 0) ''alpha'' = Inr [1, 2]"
    using c0 by (simp add: ensemble2_def getitem_def)
  have d: "snd (weight_by_likelihood 0 ?h) 1 = DataFrame_ones 3 [''MB'']"
    using d0 by simp
  show ?thesis
    using a b c d by (intro conjI)
qed

section \<open>The generator cells in closed form\<close>

lemma length_draws: "length (fst (draws f n g)) = n"
proof (induction n arbitrary: g)
  case 0
  show ?case by simp
next
  case (Suc n)
  obtain x g' where fg: "f g = (x, g')" by (cases "f g")
  obtain xs g'' where dr: "draws f n g' = (xs, g'')" by (cases "draws f n g'")
  from Suc [of g'] dr have "length xs = n" by simp
  with fg dr show ?case by simp
qed

lemma map2_replicate_left:
  "length es = n \<Longrightarrow> map2 f (replicate n c) es = map (f c) es"
  by (induction es arbitrary: n) auto

lemma map2_map_right: "map2 f xs (map h es) = map2 (\<lambda>t e. f t (h e)) xs es"
  by (induction xs es rule: list_induct2') auto

lemma np_binop_same: "length xs = length ys \<Longrightarrow> np_binop f xs ys = Inr (map2 f xs ys)"
  by (simp add: np_binop_def)

lemma cell_x1_true_run:
  "size_we_want ns = Some n \<Longrightarrow>
   cell_x1_true lib (ns, g) =
     Inr (ns\<lparr>x1_true_dist := Some (fst (draws (standard_normal lib) n g))\<rparr>,
          snd (draws (standard_normal lib) n g))"
  by (simp add: cell_x1_true_def then_do_def lookup_def np_random_normal_def case_prod_beta)

lemma cell_x1_obs_run:
  "size_we_want ns = Some n \<Longrightarrow> x1_true_dist ns = Some xt \<Longrightarrow> length xt = n \<Longrightarrow>
   cell_x1_obs lib (ns, g) =
     Inr (ns\<lparr>x1_obs_unc := Some (replicate n (1 / 2)),
             x1_obs_dist := Some (map2 (\<lambda>t e. t + 1 / 2 * e) xt
                (fst (draws (standard_normal lib) n g)))\<rparr>,
          snd (draws (standard_normal lib) n g))"
  by (simp add: cell_x1_obs_def then_do_def lookup_def np_random_normal_def case_prod_beta
      np_ones_like_def Let_def np_binop_same length_draws map2_replicate_left map2_map_right)

lemma cell_c_run:
  "size_we_want ns = Some n \<Longrightarrow>
   cell_c lib (ns, g) =
     (let d1 = draws (standard_normal lib) n g;
          d2 = draws (standard_exponential lib) n (snd d1);
          d3 = draws (standard_normal lib) n (snd d2);
          cn = map (\<lambda>v. 1 / 10 * v) (fst d1);
          ce = map (\<lambda>v. 1 / 10 * v) (fst d2);
          ct = map2 (+) cn ce
      in Inr (ns\<lparr>c_true_norm := Some cn, c_true_exp := Some ce, c_true_dist := Some ct,
                 c_obs_unc := Some (replicate n (1 / 2)),
                 c_obs_dist := Some (map2 (\<lambda>t e. t + 1 / 2 * e) ct (fst d3))\<rparr>,
              snd d3))"
  by (simp add: cell_c_def then_do_def lookup_def np_random_normal_def np_random_exponential_def
      case_prod_beta np_ones_like_def Let_def np_binop_same length_draws map2_replicate_left
      map2_map_right)

lemma cell_z_run:
  "size_we_want ns = Some n \<Longrightarrow>
   cell_z lib (ns, g) =
     Inr (ns\<lparr>z_dist := Some (map (\<lambda>v. 2 / 10 + (1 - 2 / 10) * v)
                (fst (draws (random_sample lib) n g)))\<rparr>,
          snd (draws (random_sample lib) n g))"
  by (simp add: cell_z_def then_do_def lookup_def np_random_uniform_def case_prod_beta)

lemma cell_cosmo_run:
  "Omega_m ns = Some om \<Longrightarrow> z_dist ns = Some zs \<Longrightarrow> 0 \<le> om \<Longrightarrow>
   cell_cosmo lib (ns, g) =
     Inr (ns\<lparr>cosmo := Some (70, om), mu_dist := Some (map (distmod lib 70 om) zs)\<rparr>, g)"
  by (simp add: cell_cosmo_def then_do_def lookup_def Let_def FlatLambdaCDM_def)


lemma generator_result:
  "run_cells 1 (generator_cells lib) (ns, g) =
     Completed (generated lib g ns, rng_after (generator_draws lib g))"
proof -
  define d where "d = generator_draws lib g"
  define d1 where "d1 = draws (standard_normal lib) 250 g"
  define d2 where "d2 = draws (standard_normal lib) 250 (snd d1)"
  define d3 where "d3 = draws (standard_normal lib) 250 (snd d2)"
  define d4 where "d4 = draws (standard_exponential lib) 250 (snd d3)"
  define d5 where "d5 = draws (standard_normal lib) 250 (snd d4)"
  define d6 where "d6 = draws (random_sample lib) 250 (snd d5)"
  have d: "d = \<lparr>x1_true_draw = fst d1, x1_noise_draw = fst d2, c_norm_draw = fst d3,
      c_exp_draw = fst d4, c_noise_draw = fst d5, z_draw = fst d6, rng_after = snd d6\<rparr>"
    by (simp add: d_def generator_draws_def case_prod_beta d1_def d2_def d3_def d4_def d5_def
        d6_def)
  define n2 where "n2 = ns\<lparr>size_we_want := Some 250\<rparr>"
  define n3 where "n3 = n2\<lparr>x1_true_dist := Some (fst d1)\<rparr>"
  define n4 where "n4 = n3\<lparr>x1_obs_unc := Some (replicate 250 (1 / 2)),
      x1_obs_dist := Some (map2 (\<lambda>t e. t + 1 / 2 * e) (fst d1) (fst d2))\<rparr>"
  define ct where "ct = map2 (+) (map (\<lambda>v. 1 / 10 * v) (fst d3)) (map (\<lambda>v. 1 / 10 * v) (fst d4))"
  define n5 where "n5 = n4\<lparr>c_true_norm := Some (map (\<lambda>v. 1 / 10 * v) (fst d3)),
      c_true_exp := Some (map (\<lambda>v. 1 / 10 * v) (fst d4)), c_true_dist := Some ct,
      c_obs_unc := Some (replicate 250 (1 / 2)),
      c_obs_dist := Some (map2 (\<lambda>t e. t + 1 / 2 * e) ct (fst d5))\<rparr>"
  define zs where "zs = map (\<lambda>v. 2 / 10 + (1 - 2 / 10) * v) (fst d6)"
  define n6 where "n6 = n5\<lparr>z_dist := Some zs\<rparr>"
  define n7 where "n7 = n6\<lparr>alpha := Some (13 / 100), beta := Some 3, MB := Some (- 191 / 10),
      Omega_m := Some (3 / 10), sigma_int := Some (15 / 100)\<rparr>"
  define n8 where "n8 = n7\<lparr>cosmo := Some (70, 3 / 10),
      mu_dist := Some (map (distmod lib 70 (3 / 10)) zs)\<rparr>"
  have c1: "cell_imports (ns, g) = Inr (ns, g)"
    by (simp add: cell_imports_def)
  have c2: "cell_size_we_want (ns, g) = Inr (n2, g)"
    by (simp add: cell_size_we_want_def n2_def)
  have c3: "cell_x1_true lib (n2, g) = Inr (n3, snd d1)"
    by (simp add: cell_x1_true_run [where n = 250] n2_def n3_def d1_def)
  have c4: "cell_x1_obs lib (n3, snd d1) = Inr (n4, snd d2)"
    by (simp add: cell_x1_obs_run [where n = 250 and xt = "fst d1"] n2_def n3_def n4_def d1_def
        d2_def length_draws)
  have c5: "cell_c lib (n4, snd d2) = Inr (n5, snd d5)"
    by (simp add: cell_c_run [where n = 250] n2_def n3_def n4_def n5_def ct_def d3_def d4_def
        d5_def Let_def)
  have c6: "cell_z lib (n5, snd d5) = Inr (n6, snd d6)"
    by (simp add: cell_z_run [where n = 250] n2_def n3_def n4_def n5_def n6_def zs_def d6_def)
  have c7: "cell_constants (n6, snd d6) = Inr (n7, snd d6)"
    by (simp add: cell_constants_def n7_def)
  have c8: "cell_cosmo lib (n7, snd d6) = Inr (n8, snd d6)"
    by (simp add: cell_cosmo_run [where om = "3 / 10" and zs = zs] n6_def n7_def n8_def)
  have run: "run_cells 1 (generator_cells lib) (ns, g) = Completed (n8, snd d6)"
    by (simp add: generator_cells_def c1 c2 c3 c4 c5 c6 c7 c8)
  have "generated lib g ns = n8"
    unfolding generated_def d_def [symmetric]
    by (simp only: d Let_def generator_draws.select_convs n8_def n7_def n6_def n5_def n4_def
        n3_def n2_def ct_def zs_def)
  moreover have "rng_after d = snd d6"
    by (simp only: d generator_draws.select_convs)
  ultimately show ?thesis
    using run by (simp only: d_def)
qed

section \<open>The sampling loop in closed form\<close>

lemma map_of_ones:
  "map_of (map (\<lambda>k. (k, v)) labels) k = (if k \<in> set labels then Some v else None)"
  by (induction labels) auto

lemma as_rows_same: "length a = n \<Longrightarrow> as_rows n a = Inr a"
  by (simp add: as_rows_def)

lemma sampling_body_run:
  assumes "nSN ns = Some n" "par_labels ns = Some labels" "''mb_true'' \<in> set labels"
    and "mu ns = Some mus" "length mus = n"
    and "mb_obs ns = Some mbo" "length mbo = n"
    and "x1_obs ns = Some x1o" "length x1o = n"
    and "c_obs ns = Some co" "length co = n"
    and "schain ns = Some sc"
    and "pd ns = Some ()" "scipy ns = Some ()" "distinct labels"
    and "draw_candidate lib n g = (c, g')"
  shows "sampling_body lib (ns, g) =
     Inr (ns\<lparr>datafr := Some (candidate_frame n labels c),
             mb_true := Some (candidate_mb_true n c mus),
             likelihood_mobs := Some (LogGaussian_rows mbo (candidate_mb_true n c mus)
                                        (map (\<lambda>v. v ^ 2) (replicate n (cand_sigma_int c)))),
             likelihood_x1 := Some (LogGaussian_rows x1o (cand_x1_true c)
                                      (replicate n ((1 / 2) ^ 2))),
             likelihood_c := Some (LogGaussian_rows co (cand_c_true c)
                                     (replicate n ((1 / 2) ^ 2))),
             likelihood_var := Some (candidate_likelihood n c mus mbo x1o co),
             schain := Some (sc @ [stored_frame n c])\<rparr>, g')"
proof -
  have c: "c = fst (draw_candidate lib n g)" and g': "g' = snd (draw_candidate lib n g)"
    using assms(16) by simp_all
  show ?thesis
    unfolding c g'
    using assms(1-15)
    by (simp add: sampling_body_def draw_candidate_def then_do_def lookup_def Let_def
        case_prod_beta setitem_array_def length_draws setitem_scalar_def getitem_def
        update_conv' DataFrame_ones_def map_of_ones as_rows_same getitem_list_def
        candidate_frame_def candidate_mb_true_def stored_frame_def candidate_likelihood_def)
qed

lemma map2_nth:
  "length xs = n \<Longrightarrow> length ys = n \<Longrightarrow> map2 f xs ys = map (\<lambda>j. f (xs ! j) (ys ! j)) [0..<n]"
  by (rule nth_equalityI) auto

lemma replicate_nth: "replicate n v = map (\<lambda>j. v) [0..<n]"
  by (simp add: map_replicate_trivial)

lemma candidate_mb_true_nth:
  assumes "length (cand_x1_true c) = n" "length (cand_c_true c) = n" "length mus = n"
  shows "candidate_mb_true n c mus =
    map (\<lambda>j. cand_MB c - cand_alpha c * cand_x1_true c ! j + cand_beta c * cand_c_true c ! j
              + mus ! j) [0..<n]"
  unfolding candidate_mb_true_def using assms
  by (intro nth_equalityI) auto

lemma LogGaussian_rows_nth:
  assumes "length xs = n" "length ms = n" "length sigs = n"
  shows "LogGaussian_rows xs ms sigs = map (\<lambda>j. LogGaussian (xs ! j) (ms ! j) (sigs ! j)) [0..<n]"
  unfolding LogGaussian_rows_def using assms
  by (intro nth_equalityI) auto

lemma np_sum_Finite_append:
  "np_sum (map (\<lambda>j. Finite (f j)) js @ rest) = add_pyfloat (Finite (sum_list (map f js))) (np_sum rest)"
proof (induction js)
  case Nil
  show ?case by (cases "np_sum rest") (simp_all add: np_sum_def)
next
  case (Cons j js)
  then show ?case by (cases "np_sum rest") (simp_all add: np_sum_def)
qed

lemma np_sum_Finite: "np_sum (map (\<lambda>j. Finite (f j)) js) = Finite (sum_list (map f js))"
  using np_sum_Finite_append [of f js "[]"] by (simp add: np_sum_def)

lemma np_sum_NonFinite: "NonFinite \<in> set xs \<Longrightarrow> np_sum xs = NonFinite"
proof (induction xs)
  case Nil
  then show ?case by simp
next
  case (Cons x xs)
  show ?case
  proof (cases x)
    case (Finite a)
    with Cons have "np_sum xs = NonFinite" by simp
    with Finite show ?thesis by (simp add: np_sum_def)
  next
    case NonFinite
    then show ?thesis by (simp add: np_sum_def)
  qed
qed

lemma candidate_likelihood_value:
  assumes "length (cand_x1_true c) = n" "length (cand_c_true c) = n"
    and "length mus = n" "length mbo = n" "length x1o = n" "length co = n"
  shows "candidate_likelihood n c mus mbo x1o co =
    (if cand_sigma_int c = 0 \<and> 0 < n then NonFinite
     else Finite (\<Sum>j<n.
        - (1 / 2) * (mbo ! j - (cand_MB c - cand_alpha c * cand_x1_true c ! j
                                 + cand_beta c * cand_c_true c ! j + mus ! j)) ^ 2
            / ((cand_sigma_int c) ^ 2) ^ 2
        + - (1 / 2) * (x1o ! j - cand_x1_true c ! j) ^ 2 / ((1 / 2) ^ 2) ^ 2
        + - (1 / 2) * (co ! j - cand_c_true c ! j) ^ 2 / ((1 / 2) ^ 2) ^ 2))"
proof -
  let ?mbt = "candidate_mb_true n c mus"
  have len: "length ?mbt = n"
    using assms by (simp add: candidate_mb_true_nth)
  have rows1: "LogGaussian_rows mbo ?mbt (map (\<lambda>v. v ^ 2) (replicate n (cand_sigma_int c)))
    = map (\<lambda>j. LogGaussian (mbo ! j) (?mbt ! j) ((cand_sigma_int c) ^ 2)) [0..<n]"
    using assms len by (simp add: LogGaussian_rows_nth [where n = n])
  have rows2: "LogGaussian_rows x1o (cand_x1_true c) (replicate n ((1 / 2) ^ 2))
    = map (\<lambda>j. LogGaussian (x1o ! j) (cand_x1_true c ! j) ((1 / 2) ^ 2)) [0..<n]"
    using assms by (simp add: LogGaussian_rows_nth [where n = n])
  have rows3: "LogGaussian_rows co (cand_c_true c) (replicate n ((1 / 2) ^ 2))
    = map (\<lambda>j. LogGaussian (co ! j) (cand_c_true c ! j) ((1 / 2) ^ 2)) [0..<n]"
    using assms by (simp add: LogGaussian_rows_nth [where n = n])
  have fin2: "map (\<lambda>j. LogGaussian (x1o ! j) (cand_x1_true c ! j) ((1 / 2) ^ 2)) [0..<n]
    = map (\<lambda>j. Finite (- (1 / 2) * (x1o ! j - cand_x1_true c ! j) ^ 2 / ((1 / 2) ^ 2) ^ 2)) [0..<n]"
    by (simp add: LogGaussian_def)
  have fin3: "map (\<lambda>j. LogGaussian (co ! j) (cand_c_true c ! j) ((1 / 2) ^ 2)) [0..<n]
    = map (\<lambda>j. Finite (- (1 / 2) * (co ! j - cand_c_true c ! j) ^ 2 / ((1 / 2) ^ 2) ^ 2)) [0..<n]"
    by (simp add: LogGaussian_def)
  show ?thesis
  proof (cases "cand_sigma_int c = 0 \<and> 0 < n")
    case True
    then have "LogGaussian (mbo ! 0) (?mbt ! 0) ((cand_sigma_int c) ^ 2) = NonFinite"
      by (simp add: LogGaussian_def)
    moreover have "0 \<in> set [0..<n]" using True by simp
    ultimately have "NonFinite \<in> set (map (\<lambda>j. LogGaussian (mbo ! j) (?mbt ! j)
        ((cand_sigma_int c) ^ 2)) [0..<n])"
      by (metis (mono_tags, lifting) image_eqI set_map)
    then have "NonFinite \<in> set (LogGaussian_rows mbo ?mbt
        (map (\<lambda>v. v ^ 2) (replicate n (cand_sigma_int c))))"
      by (simp only: rows1)
    then have "candidate_likelihood n c mus mbo x1o co = NonFinite"
      unfolding candidate_likelihood_def by (intro np_sum_NonFinite) simp
    with True show ?thesis
      by simp
  next
    case False
    have fin1: "map (\<lambda>j. LogGaussian (mbo ! j) (?mbt ! j) ((cand_sigma_int c) ^ 2)) [0..<n]
      = map (\<lambda>j. Finite (- (1 / 2) * (mbo ! j - (cand_MB c - cand_alpha c * cand_x1_true c ! j
                                 + cand_beta c * cand_c_true c ! j + mus ! j)) ^ 2
            / ((cand_sigma_int c) ^ 2) ^ 2)) [0..<n]"
      using False assms by (auto simp: LogGaussian_def candidate_mb_true_nth)
    have "candidate_likelihood n c mus mbo x1o co =
      Finite (sum_list (map (\<lambda>j. - (1 / 2) * (mbo ! j - (cand_MB c
                  - cand_alpha c * cand_x1_true c ! j
                  + cand_beta c * cand_c_true c ! j + mus ! j)) ^ 2
                  / ((cand_sigma_int c) ^ 2) ^ 2) [0..<n])
            + (sum_list (map (\<lambda>j. - (1 / 2) * (x1o ! j - cand_x1_true c ! j) ^ 2
                  / ((1 / 2) ^ 2) ^ 2) [0..<n])
            + sum_list (map (\<lambda>j. - (1 / 2) * (co ! j - cand_c_true c ! j) ^ 2
                  / ((1 / 2) ^ 2) ^ 2) [0..<n])))"
      unfolding candidate_likelihood_def rows1 rows2 rows3 fin1 fin2 fin3
      by (simp only: np_sum_Finite_append np_sum_Finite add_pyfloat.simps)
    also have "\<dots> = Finite (\<Sum>j<n.
        - (1 / 2) * (mbo ! j - (cand_MB c - cand_alpha c * cand_x1_true c ! j
                                 + cand_beta c * cand_c_true c ! j + mus ! j)) ^ 2
            / ((cand_sigma_int c) ^ 2) ^ 2
        + - (1 / 2) * (x1o ! j - cand_x1_true c ! j) ^ 2 / ((1 / 2) ^ 2) ^ 2
        + - (1 / 2) * (co ! j - cand_c_true c ! j) ^ 2 / ((1 / 2) ^ 2) ^ 2)"
      by (simp only: interv_sum_list_conv_sum_set_nat sum.distrib atLeast0LessThan
          set_upt add.assoc)
    finally show ?thesis
      using False by (simp only: if_False)
  qed
qed

lemma for_range_run:
  assumes "nSN ns = Some n" "par_labels ns = Some labels" "''mb_true'' \<in> set labels"
    and "mu ns = Some mus" "length mus = n"
    and "mb_obs ns = Some mbo" "length mbo = n"
    and "x1_obs ns = Some x1o" "length x1o = n"
    and "c_obs ns = Some co" "length co = n"
    and "schain ns = Some sc"
    and "pd ns = Some ()" "scipy ns = Some ()" "distinct labels"
  shows "for_range k (sampling_body lib) (ns, g) =
     Inr (after_candidates n labels mus mbo x1o co sc (fst (draw_candidates lib n k g)) ns,
          snd (draw_candidates lib n k g))"
  using assms
proof (induction k arbitrary: ns g sc)
  case 0
  then show ?case by (simp add: after_candidates_def)
next
  case (Suc k)
  obtain c g1 where c: "draw_candidate lib n g = (c, g1)"
    by (cases "draw_candidate lib n g")
  obtain cs g2 where cs: "draw_candidates lib n k g1 = (cs, g2)"
    by (cases "draw_candidates lib n k g1")
  define ns1 where "ns1 = ns\<lparr>datafr := Some (candidate_frame n labels c),
             mb_true := Some (candidate_mb_true n c mus),
             likelihood_mobs := Some (LogGaussian_rows mbo (candidate_mb_true n c mus)
                                        (map (\<lambda>v. v ^ 2) (replicate n (cand_sigma_int c)))),
             likelihood_x1 := Some (LogGaussian_rows x1o (cand_x1_true c)
                                      (replicate n ((1 / 2) ^ 2))),
             likelihood_c := Some (LogGaussian_rows co (cand_c_true c)
                                     (replicate n ((1 / 2) ^ 2))),
             likelihood_var := Some (candidate_likelihood n c mus mbo x1o co),
             schain := Some (sc @ [stored_frame n c])\<rparr>"
  have body: "sampling_body lib (ns, g) = Inr (ns1, g1)"
    unfolding ns1_def
    by (rule sampling_body_run [OF Suc.prems c])
  have rest: "for_range k (sampling_body lib) (ns1, g1) =
     Inr (after_candidates n labels mus mbo x1o co (sc @ [stored_frame n c])
            (fst (draw_candidates lib n k g1)) ns1, snd (draw_candidates lib n k g1))"
    by (rule Suc.IH) (simp_all add: ns1_def Suc.prems)
  have "after_candidates n labels mus mbo x1o co (sc @ [stored_frame n c]) cs ns1
      = after_candidates n labels mus mbo x1o co sc (c # cs) ns"
    by (cases "rev cs") (simp_all add: after_candidates_def ns1_def)
  with body rest c cs show ?case
    by (simp add: then_do_def)
qed

lemma cell_sampling_run:
  assumes "Omega_m ns = Some om" "z ns = Some zs" "length zs = 10"
    and "par_labels ns = Some labels" "''mb_true'' \<in> set labels"
    and "mb_obs ns = Some mbo" "length mbo = 10"
    and "x1_obs ns = Some x1o" "length x1o = 10"
    and "c_obs ns = Some co" "length co = 10"
    and "pd ns = Some ()" "scipy ns = Some ()" "distinct labels" "0 \<le> om"
  shows "cell_sampling lib (ns, g) =
     Inr (after_candidates 10 labels (map (distmod lib 70 om) zs) mbo x1o co []
            (fst (draw_candidates lib 10 2 g))
            (ns\<lparr>N := Some 2, nSN := Some 10, cosmo := Some (70, om),
                mu := Some (map (distmod lib 70 om) zs), schain := Some []\<rparr>),
          snd (draw_candidates lib 10 2 g))"
proof -
  define ns3 where "ns3 = ns\<lparr>N := Some 2, nSN := Some 10, cosmo := Some (70, om),
                mu := Some (map (distmod lib 70 om) zs), schain := Some []\<rparr>"
  have "for_range 2 (sampling_body lib) (ns3, g) =
     Inr (after_candidates 10 labels (map (distmod lib 70 om) zs) mbo x1o co []
            (fst (draw_candidates lib 10 2 g)) ns3, snd (draw_candidates lib 10 2 g))"
    by (rule for_range_run) (simp_all add: ns3_def assms)
  then show ?thesis
    using assms
    by (simp add: cell_sampling_def then_do_def lookup_def Let_def ns3_def FlatLambdaCDM_def)
qed

section \<open>The claims about the population generator and the in-order run\<close>

lemma run_cells_append:
  "run_cells k (cs @ rest) s =
     (case run_cells k cs s of
        Completed s' \<Rightarrow> run_cells (k + length cs) rest s'
      | Halted j e s' \<Rightarrow> Halted j e s')"
proof (induction cs arbitrary: k s)
  case Nil
  show ?case by simp
next
  case (Cons c cs)
  show ?case
  proof (cases "c s")
    case (Inl e)
    then show ?thesis by simp
  next
    case (Inr s')
    then show ?thesis using Cons [of "Suc k" s'] by (simp split: outcome.split)
  qed
qed

lemma generated_keeps:
  "schain (generated lib g ns) = schain ns" "likelihood_var (generated lib g ns) = likelihood_var ns"
  "datafr (generated lib g ns) = datafr ns" "mb_true (generated lib g ns) = mb_true ns"
  "mb_obs (generated lib g ns) = mb_obs ns"
  by (simp_all add: generated_def Let_def)

text \<open>
  C8. Running the notebook's cells in order in a fresh kernel halts at the ninth code cell,
  the one that ends in the incomplete statement \<open>mb_true =\<close>, with a SyntaxError: the eight
  cells before it complete, whatever the libraries draw, and whatever cells follow are
  not executed. In the state in which the run halts no inference result exists: \<open>schain\<close>,
  the variable \<open>likelihood\<close>, \<open>datafr\<close> and \<open>mb_true\<close> are unbound.
\<close>

theorem in_order_run_halts:
  "run_cells 1 (generator_cells lib @ cell_mb_true # rest) (fresh, g)
     = Halted 9 SyntaxError (generated lib g fresh, rng_after (generator_draws lib g))
   \<and> schain (generated lib g fresh) = None
   \<and> likelihood_var (generated lib g fresh) = None
   \<and> datafr (generated lib g fresh) = None
   \<and> mb_true (generated lib g fresh) = None"
proof -
  have "length (generator_cells lib) = 8"
    by (simp add: generator_cells_def)
  then have "run_cells 1 (generator_cells lib @ cell_mb_true # rest) (fresh, g)
     = Halted 9 SyntaxError (generated lib g fresh, rng_after (generator_draws lib g))"
    by (simp add: run_cells_append generator_result [unfolded One_nat_def] cell_mb_true_def)
  then show ?thesis
    by (simp add: generated_keeps fresh_def)
qed

lemma population_of_generated:
  "population_of (generated lib g ns1) = population_of (generated lib g ns2)"
  by (simp add: population_of_def generated_def Let_def)

text \<open>
  C9. For a fixed state of numpy's generator at the start (the seed), two runs of the
  generator cells produce the same output: the arrays \<open>x1_true_dist\<close>, \<open>x1_obs_dist\<close>,
  \<open>c_true_dist\<close>, \<open>c_obs_dist\<close>, \<open>z_dist\<close>, \<open>mu_dist\<close> and the generator state left behind are
  the same, whatever the kernel's namespace held before each run (for instance the
  results of the earlier run), and both runs complete.
\<close>

theorem generator_deterministic:
  "generated_output (run_cells 1 (generator_cells lib) (ns1, g))
     = generated_output (run_cells 1 (generator_cells lib) (ns2, g))
   \<and> generated_output (run_cells 1 (generator_cells lib) (ns1, g)) \<noteq> None"
  by (simp add: generator_result [unfolded One_nat_def] generated_output_def
      population_of_generated [of lib g ns1 ns2])





section \<open>The claims about the sampling loop\<close>

lemma body_likelihood_run:
  assumes "nSN ns = Some n" "par_labels ns = Some labels" "''mb_true'' \<in> set labels"
    and "mu ns = Some mus" "length mus = n"
    and "mb_obs ns = Some mbo" "length mbo = n"
    and "x1_obs ns = Some x1o" "length x1o = n"
    and "c_obs ns = Some co" "length co = n"
    and "schain ns = Some sc"
    and "pd ns = Some ()" "scipy ns = Some ()" "distinct labels"
  shows "body_likelihood lib (ns, g) =
    Inr (Some (candidate_likelihood n (fst (draw_candidate lib n g)) mus mbo x1o co))"
  unfolding body_likelihood_def
  by (subst sampling_body_run [OF assms, of lib g "fst (draw_candidate lib n g)"
        "snd (draw_candidate lib n g)"]) simp_all

lemma draw_lib0_first: "draw_candidate lib0 10 0 = (ones, 25)"
  by (simp add: draw_candidate_def lib0_def eval_nat_numeral ones_def)

lemma draw_lib0_second: "draw_candidate lib0 10 25 = (twos, 50)"
  by (simp add: draw_candidate_def lib0_def eval_nat_numeral twos_def)

lemma draw_lib_neg: "draw_candidate lib_neg 10 g = (minus_ones, g + 25)"
  by (simp add: draw_candidate_def lib_neg_def eval_nat_numeral minus_ones_def)

lemma likelihood_of_constant_rows:
  assumes "s \<noteq> 0"
  shows "candidate_likelihood 10
     \<lparr>cand_alpha = a, cand_beta = b, cand_MB = m, cand_sigma_int = s, cand_Omega_m = om,
      cand_x1_true = replicate 10 x, cand_c_true = replicate 10 c\<rparr>
     (replicate 10 d) (replicate 10 mbo) (replicate 10 x1o) (replicate 10 co)
   = Finite (10 * (- (1 / 2) * (mbo - (m - a * x + b * c + d)) ^ 2 / (s ^ 2) ^ 2
                  + - (1 / 2) * (x1o - x) ^ 2 / ((1 / 2) ^ 2) ^ 2
                  + - (1 / 2) * (co - c) ^ 2 / ((1 / 2) ^ 2) ^ 2))"
  using assms
  by (subst candidate_likelihood_value [where n = 10]) (simp_all del: mult_minus_left)

lemma draws2_lib0: "draw_candidates lib0 10 2 0 = ([ones, twos], 50)"
  by (simp add: numeral_2_eq_2 draw_lib0_first draw_lib0_second)

lemma in_loop_ready:
  "nSN (in_loop mbo x1o co) = Some 10" "par_labels (in_loop mbo x1o co) = Some labels8"
  "''mb_true'' \<in> set labels8" "mu (in_loop mbo x1o co) = Some (replicate 10 0)"
  "mb_obs (in_loop mbo x1o co) = Some mbo" "x1_obs (in_loop mbo x1o co) = Some x1o"
  "c_obs (in_loop mbo x1o co) = Some co" "schain (in_loop mbo x1o co) = Some []"
  "pd (in_loop mbo x1o co) = Some ()" "scipy (in_loop mbo x1o co) = Some ()"
  "distinct labels8"
  by (simp_all add: in_loop_def observed_def labels8_def)

lemma body_lib0_constant_rows:
  "body_likelihood lib0 (in_loop (replicate 10 mbo) (replicate 10 x1o) (replicate 10 co), 0) =
     Inr (Some (Finite (- (5 * (mbo - 1) ^ 2 + 80 * (x1o - 1) ^ 2 + 80 * (co - 1) ^ 2))))"
proof -
  have "body_likelihood lib0 (in_loop (replicate 10 mbo) (replicate 10 x1o) (replicate 10 co), 0)
    = Inr (Some (candidate_likelihood 10 ones (replicate 10 0) (replicate 10 mbo)
        (replicate 10 x1o) (replicate 10 co)))"
    by (subst body_likelihood_run [where n = 10 and labels = labels8 and sc = "[]"
          and mus = "replicate 10 0" and mbo = "replicate 10 mbo" and x1o = "replicate 10 x1o"
          and co = "replicate 10 co"])
      (simp_all add: in_loop_ready draw_lib0_first)
  also have "candidate_likelihood 10 ones (replicate 10 0) (replicate 10 mbo)
        (replicate 10 x1o) (replicate 10 co)
     = Finite (- (5 * (mbo - 1) ^ 2 + 80 * (x1o - 1) ^ 2 + 80 * (co - 1) ^ 2))"
    unfolding ones_def
    by (subst likelihood_of_constant_rows) (simp_all add: power_divide)
  finally show ?thesis .
qed

lemma spec_constant_rows:
  "spec_measurement_loglik 10 ones (replicate 10 0) (replicate 10 mbo) (replicate 10 x1o)
      (replicate 10 co)
   = 10 * (spec_log_normal mbo 1 (5 / 100) + spec_log_normal x1o 1 (1 / 2)
           + spec_log_normal co 1 (1 / 2))"
  by (simp add: spec_measurement_loglik_def ones_def)

lemma spec_gap:
  "spec_measurement_loglik 10 ones (replicate 10 0) (replicate 10 1) (replicate 10 1)
      (replicate 10 1)
   - spec_measurement_loglik 10 ones (replicate 10 0) (replicate 10 1) (replicate 10 2)
      (replicate 10 1) = 20"
  by (simp add: spec_constant_rows spec_log_normal_def power2_eq_square)

text \<open>
  C3, at one candidate: the loop passes \<open>0.5 ** 2\<close> as the argument \<open>sig\<close> of \<open>LogGaussian\<close>,
  which squares it once more, so the \<open>x1\<close> and \<open>c\<close> terms are \<open>-(x - mu)^2 / (2 * 0.5^4)\<close>
  and not the quadratic part \<open>-(x - mu)^2 / (2 * 0.5^2)\<close> of the Gaussian log-density with
  standard deviation 0.5. For the candidate of all ones and ten objects, with every
  observation equal to 1 the loop computes 0; with \<open>x1_obs\<close> changed to 2 it computes \<open>-80\<close>,
  while the sum of the three log-densities drops by 20; one term is \<open>-8\<close> where the scale
  0.5 gives \<open>-2\<close>.
\<close>

theorem likelihood_scale_squared_twice:
  "fst (draw_candidate lib0 10 0) = ones
   \<and> body_likelihood lib0 (in_loop (replicate 10 1) (replicate 10 1) (replicate 10 1), 0)
       = Inr (Some (Finite 0))
   \<and> body_likelihood lib0 (in_loop (replicate 10 1) (replicate 10 2) (replicate 10 1), 0)
       = Inr (Some (Finite (- 80)))
   \<and> spec_measurement_loglik 10 ones (replicate 10 0) (replicate 10 1) (replicate 10 2)
          (replicate 10 1)
       - spec_measurement_loglik 10 ones (replicate 10 0) (replicate 10 1) (replicate 10 1)
          (replicate 10 1) = - 20
   \<and> LogGaussian 2 1 ((1 / 2) ^ 2) = Finite (- 8)
   \<and> LogGaussian 2 1 (1 / 2) = Finite (- 2)"
proof -
  have "LogGaussian 2 1 ((1 / 2) ^ 2) = Finite (- 8)" "LogGaussian 2 1 (1 / 2) = Finite (- 2)"
    by (simp_all add: LogGaussian_def power_divide)
  then show ?thesis
    using spec_gap by (simp add: body_lib0_constant_rows draw_lib0_first power_divide)
qed

lemma distmod_lib0: "distmod lib0 = (\<lambda>H0 Om0 v. 0)"
  by (simp add: lib0_def)

lemma observed_ready:
  "Omega_m observed = Some (3 / 10)" "z observed = Some (replicate 10 (1 / 2))"
  "par_labels observed = Some labels8" "mb_obs observed = Some (replicate 10 0)"
  "x1_obs observed = Some (replicate 10 0)" "c_obs observed = Some (replicate 10 0)"
  "pd observed = Some ()" "scipy observed = Some ()"
  by (simp_all add: observed_def)

lemma after_two:
  "likelihood_var (after_candidates n labels mus mbo x1o co sc [c1, c2] ns)
     = Some (candidate_likelihood n c2 mus mbo x1o co)"
  "schain (after_candidates n labels mus mbo x1o co sc [c1, c2] ns)
     = Some (sc @ [stored_frame n c1, stored_frame n c2])"
  "mb_true (after_candidates n labels mus mbo x1o co sc [c1, c2] ns)
     = Some (candidate_mb_true n c2 mus)"
  by (simp_all add: after_candidates_def)

lemma cell_sampling_observed:
  assumes "draw_candidates lib 10 2 0 = ([c1, c2], g')" "distmod lib = (\<lambda>H0 Om0 v. 0)"
  shows "cell_sampling lib (observed, 0) =
     Inr (after_candidates 10 labels8 (replicate 10 0) (replicate 10 0) (replicate 10 0)
            (replicate 10 0) [] [c1, c2]
            (observed\<lparr>N := Some 2, nSN := Some 10, cosmo := Some (70, 3 / 10),
                mu := Some (replicate 10 0), schain := Some []\<rparr>), g')"
  by (subst cell_sampling_run [where om = "3 / 10" and zs = "replicate 10 (1 / 2)"
        and labels = labels8 and mbo = "replicate 10 0" and x1o = "replicate 10 0"
        and co = "replicate 10 0"])
    (simp_all add: observed_ready in_loop_ready assms)

text \<open>
  C2, at a run of cell 12 with two candidates: the first iteration computes the
  log-likelihood \<open>-165\<close> of the first candidate, but after the loop the variable
  \<open>likelihood\<close> holds only the value \<open>-2565/4\<close> of the second candidate, and the two frames
  of \<open>schain\<close> have the columns \<open>mb_true\<close>, \<open>alpha\<close>, \<open>beta\<close>, \<open>MB\<close>, \<open>Omega_m\<close>, \<open>sigma_int\<close> and
  no weight: the loop does not keep one log-weight per candidate.
\<close>

theorem only_last_likelihood_kept:
  "body_likelihood lib0 (in_loop (replicate 10 0) (replicate 10 0) (replicate 10 0), 0)
     = Inr (Some (Finite (- 165)))
   \<and> (case cell_sampling lib0 (observed, 0) of
        Inl e \<Rightarrow> False
      | Inr (ns, g) \<Rightarrow>
          likelihood_var ns = Some (Finite (- 2565 / 4))
          \<and> schain ns = Some [stored_frame 10 ones, stored_frame 10 twos]
          \<and> map (\<lambda>df. map fst (columns df)) [stored_frame 10 ones, stored_frame 10 twos]
              = [[''mb_true'', ''alpha'', ''beta'', ''MB'', ''Omega_m'', ''sigma_int''],
                 [''mb_true'', ''alpha'', ''beta'', ''MB'', ''Omega_m'', ''sigma_int'']])"
proof -
  have a: "body_likelihood lib0 (in_loop (replicate 10 0) (replicate 10 0) (replicate 10 0), 0)
     = Inr (Some (Finite (- 165)))"
    by (simp add: body_lib0_constant_rows)
  have "candidate_likelihood 10 twos (replicate 10 0) (replicate 10 0) (replicate 10 0)
      (replicate 10 0) = Finite (- 2565 / 4)"
    unfolding twos_def by (subst likelihood_of_constant_rows) (simp_all add: power_divide)
  then have b: "(case cell_sampling lib0 (observed, 0) of
        Inl e \<Rightarrow> False
      | Inr (ns, g) \<Rightarrow>
          likelihood_var ns = Some (Finite (- 2565 / 4))
          \<and> schain ns = Some [stored_frame 10 ones, stored_frame 10 twos]
          \<and> map (\<lambda>df. map fst (columns df)) [stored_frame 10 ones, stored_frame 10 twos]
              = [[''mb_true'', ''alpha'', ''beta'', ''MB'', ''Omega_m'', ''sigma_int''],
                 [''mb_true'', ''alpha'', ''beta'', ''MB'', ''Omega_m'', ''sigma_int'']])"
    by (simp add: cell_sampling_observed [OF draws2_lib0 distmod_lib0] after_two)
      (simp add: stored_frame_def)
  from a b show ?thesis by (rule conjI)
qed

lemma candidate_mb_true_constant_rows:
  "candidate_mb_true 10
     \<lparr>cand_alpha = a, cand_beta = b, cand_MB = m, cand_sigma_int = s, cand_Omega_m = om,
      cand_x1_true = replicate 10 x, cand_c_true = replicate 10 c\<rparr> (replicate 10 d)
   = replicate 10 (m - a * x + b * c + d)"
  by (simp add: candidate_mb_true_def eval_nat_numeral)

text \<open>
  C6, at a run with the scripted libraries: the in-order run halts with a SyntaxError at
  the cell that should define \<open>mb_true\<close>, which stays unbound, so no intrinsic scatter is
  ever drawn; and in the sampling loop, for the candidate of all \<open>-1\<close>, \<open>mb_true\<close> is exactly
  \<open>MB - alpha * x1_true + beta * c_true + mu = -1\<close> with no scatter term, while the column
  \<open>mb_true\<close> of the stored frame keeps its initial value 1.
\<close>

theorem mb_true_gets_no_scatter:
  "(case run_cells 1 (generator_cells lib0 @ [cell_mb_true]) (fresh, 0) of
      Halted k e (ns, g) \<Rightarrow> k = 9 \<and> e = SyntaxError \<and> mb_true ns = None
    | Completed s \<Rightarrow> False)
   \<and> (case sampling_body lib_neg
            (in_loop (replicate 10 0) (replicate 10 0) (replicate 10 0), 0) of
        Inl e \<Rightarrow> False
      | Inr (ns, g) \<Rightarrow>
          mb_true ns = Some (replicate 10 (- 1))
          \<and> schain ns = Some [stored_frame 10 minus_ones]
          \<and> getitem (stored_frame 10 minus_ones) ''mb_true'' = Inr (replicate 10 1))"
proof -
  have "length (generator_cells lib0) = 8"
    by (simp add: generator_cells_def)
  then have "run_cells 1 (generator_cells lib0 @ [cell_mb_true]) (fresh, 0)
     = Halted 9 SyntaxError (generated lib0 0 fresh, rng_after (generator_draws lib0 0))"
    by (simp add: run_cells_append generator_result [unfolded One_nat_def] cell_mb_true_def)
  then have a: "(case run_cells 1 (generator_cells lib0 @ [cell_mb_true]) (fresh, 0) of
      Halted k e (ns, g) \<Rightarrow> k = 9 \<and> e = SyntaxError \<and> mb_true ns = None
    | Completed s \<Rightarrow> False)"
    by (simp add: generated_keeps fresh_def)
  have mbt: "candidate_mb_true 10 minus_ones (replicate 10 0) = replicate 10 (- 1)"
    unfolding minus_ones_def by (subst candidate_mb_true_constant_rows) simp
  have col: "getitem (stored_frame 10 minus_ones) ''mb_true'' = Inr (replicate 10 1)"
    by (simp add: stored_frame_def getitem_def)
  have "sampling_body lib_neg (in_loop (replicate 10 0) (replicate 10 0) (replicate 10 0), 0)
    = Inr ((in_loop (replicate 10 0) (replicate 10 0) (replicate 10 0))
        \<lparr>datafr := Some (candidate_frame 10 labels8 minus_ones),
             mb_true := Some (candidate_mb_true 10 minus_ones (replicate 10 0)),
             likelihood_mobs := Some (LogGaussian_rows (replicate 10 0)
                (candidate_mb_true 10 minus_ones (replicate 10 0))
                (map (\<lambda>v. v ^ 2) (replicate 10 (cand_sigma_int minus_ones)))),
             likelihood_x1 := Some (LogGaussian_rows (replicate 10 0) (cand_x1_true minus_ones)
                                      (replicate 10 ((1 / 2) ^ 2))),
             likelihood_c := Some (LogGaussian_rows (replicate 10 0) (cand_c_true minus_ones)
                                     (replicate 10 ((1 / 2) ^ 2))),
             likelihood_var := Some (candidate_likelihood 10 minus_ones (replicate 10 0)
                (replicate 10 0) (replicate 10 0) (replicate 10 0)),
             schain := Some ([] @ [stored_frame 10 minus_ones])\<rparr>, 0 + 25)"
    by (rule sampling_body_run) (simp_all add: in_loop_ready draw_lib_neg)
  then have b: "(case sampling_body lib_neg
            (in_loop (replicate 10 0) (replicate 10 0) (replicate 10 0), 0) of
        Inl e \<Rightarrow> False
      | Inr (ns, g) \<Rightarrow>
          mb_true ns = Some (replicate 10 (- 1))
          \<and> schain ns = Some [stored_frame 10 minus_ones]
          \<and> getitem (stored_frame 10 minus_ones) ''mb_true'' = Inr (replicate 10 1))"
    by (simp add: mbt col)
  from a b show ?thesis by (rule conjI)
qed

section \<open>The claim about parameter validation\<close>





end
